theory Spec2Isabelle
  imports Complex_Main "HOL-Library.Char_ord" "HOL-Library.List_Lexorder" "HOL-Library.Multiset"
begin

section \<open>Python values\<close>

text \<open>
  The program is \<^verbatim>\<open>minecraft_mods_report_to_excel.py\<close>. It reads a JSON document, so
  its inputs are the values \<^verbatim>\<open>json.load\<close> builds: \<^verbatim>\<open>None\<close>, booleans, integers,
  floats, strings, lists and dictionaries. The rows it builds may also hold
  \<^verbatim>\<open>datetime\<close> objects. A dictionary is an association list read with \<open>map_of\<close>;
  a string is a \<open>string\<close>, compared as Python compares it (lexicographically, by
  character code), over the 8-bit characters of HOL. Floats are modelled by their
  real value (NaN and the infinities, all of them truthy, are not represented).
\<close>

record datetime =
  year :: nat
  month :: nat
  day :: nat
  hour :: nat
  minute :: nat
  second :: nat
  microsecond :: nat
  tzinfo :: "int option"
    \<comment> \<open>\<open>None\<close> for a naive value, else the UTC offset of the fixed-offset zone, in microseconds\<close>

datatype pyval =
    PNone
  | PBool bool
  | PInt int
  | PFloat real
  | PStr string
  | PList "pyval list"
  | PDict "(string \<times> pyval) list"
  | PDatetime datetime

text \<open>The exception classes that the program can meet; an error is a value \<open>Inl e\<close>.\<close>

datatype exn = AttributeError | TypeError | ValueError | KeyError | OverflowError | OSError

definition then_do :: "exn + 'a \<Rightarrow> ('a \<Rightarrow> exn + 'b) \<Rightarrow> exn + 'b" where
  "then_do m f = (case m of Inl e \<Rightarrow> Inl e | Inr x \<Rightarrow> f x)"

text \<open>Truth value testing, as \<^verbatim>\<open>if x\<close>, \<^verbatim>\<open>not x\<close> and \<^verbatim>\<open>x or y\<close> use it.\<close>

fun truthy :: "pyval \<Rightarrow> bool" where
  "truthy PNone = False"
| "truthy (PBool b) = b"
| "truthy (PInt i) = (i \<noteq> 0)"
| "truthy (PFloat x) = (x \<noteq> 0)"
| "truthy (PStr s) = (s \<noteq> [])"
| "truthy (PList xs) = (xs \<noteq> [])"
| "truthy (PDict kvs) = (kvs \<noteq> [])"
| "truthy (PDatetime d) = True"

definition py_or :: "pyval \<Rightarrow> pyval \<Rightarrow> pyval" where
  "py_or a b = (if truthy a then a else b)"

text \<open>\<^verbatim>\<open>a or <expr>\<close> where the right operand may raise: it is only evaluated when
  \<open>a\<close> is falsy.\<close>

definition or_else :: "pyval \<Rightarrow> exn + pyval \<Rightarrow> exn + pyval" where
  "or_else a b = (if truthy a then Inr a else b)"

text \<open>\<^verbatim>\<open>d.get(key)\<close> and \<^verbatim>\<open>d.get(key, default)\<close>: only a dictionary has the method.\<close>

fun dict_get_default :: "pyval \<Rightarrow> string \<Rightarrow> pyval \<Rightarrow> exn + pyval" where
  "dict_get_default (PDict kvs) key dflt =
     Inr (case map_of kvs key of None \<Rightarrow> dflt | Some v \<Rightarrow> v)"
| "dict_get_default _ key dflt = Inl AttributeError"

definition dict_get :: "pyval \<Rightarrow> string \<Rightarrow> exn + pyval" where
  "dict_get d key = dict_get_default d key PNone"

text \<open>What a \<^verbatim>\<open>for\<close> loop or a comprehension iterates over: the elements of a list,
  the characters of a string, the keys of a dictionary; the other values are not
  iterable.\<close>

fun iter_values :: "pyval \<Rightarrow> exn + pyval list" where
  "iter_values (PList xs) = Inr xs"
| "iter_values (PStr s) = Inr (map (\<lambda>c. PStr [c]) s)"
| "iter_values (PDict kvs) = Inr (map (\<lambda>kv. PStr (fst kv)) kvs)"
| "iter_values _ = Inl TypeError"

text \<open>\<^verbatim>\<open>sep.join(items)\<close>: every item must be a string.\<close>

fun as_strs :: "pyval list \<Rightarrow> exn + string list" where
  "as_strs [] = Inr []"
| "as_strs (PStr s # xs) = then_do (as_strs xs) (\<lambda>ss. Inr (s # ss))"
| "as_strs (_ # xs) = Inl TypeError"

fun join_strs :: "string \<Rightarrow> string list \<Rightarrow> string" where
  "join_strs sep [] = []"
| "join_strs sep [s] = s"
| "join_strs sep (s # t # ss) = s @ sep @ join_strs sep (t # ss)"

definition str_join :: "string \<Rightarrow> pyval list \<Rightarrow> exn + string" where
  "str_join sep items = then_do (as_strs items) (\<lambda>ss. Inr (join_strs sep ss))"

definition endswith :: "string \<Rightarrow> string \<Rightarrow> bool" where
  "endswith s suffix =
     (length suffix \<le> length s \<and> drop (length s - length suffix) s = suffix)"

section \<open>The host: library functions and process parameters\<close>

text \<open>
  The standard library and the running process are parameters of the model:
  \<^item> \<open>fromisoformat\<close> is \<^verbatim>\<open>datetime.fromisoformat\<close> (what it accepts depends on the
    Python version); it raises \<^verbatim>\<open>ValueError\<close> on a string it rejects;
  \<^item> \<open>astimezone\<close> is \<^verbatim>\<open>datetime.astimezone()\<close> with no argument, the conversion to
    the local zone of the host; it can raise (\<^verbatim>\<open>OverflowError\<close> at the ends of the
    calendar);
  \<^item> \<open>py_format\<close> is the text an f-string gives for a value that is not a string;
  \<^item> \<open>str_lower\<close> is \<^verbatim>\<open>str.lower\<close>;
  \<^item> \<open>str_hash\<close> stands for the string hash of the process (randomised for each
    process unless \<^verbatim>\<open>PYTHONHASHSEED\<close> is fixed): a set is iterated in an order that
    the hash decides, modelled as the order of this key;
  \<^item> \<open>abspath\<close>, \<open>dirname\<close> and \<open>path_join\<close> are the \<^verbatim>\<open>os.path\<close> functions.
\<close>

record env =
  fromisoformat :: "string \<Rightarrow> exn + datetime"
  astimezone :: "datetime \<Rightarrow> exn + datetime"
  py_format :: "pyval \<Rightarrow> string"
  str_lower :: "string \<Rightarrow> string"
  str_hash :: "string \<Rightarrow> nat"
  abspath :: "string \<Rightarrow> string"
  dirname :: "string \<Rightarrow> string"
  path_join :: "string \<Rightarrow> string \<Rightarrow> string"

text \<open>A replacement field of an f-string: a string is inserted as it is.\<close>

definition format_field :: "env \<Rightarrow> pyval \<Rightarrow> string" where
  "format_field env v = (case v of PStr s \<Rightarrow> s | _ \<Rightarrow> py_format env v)"

text \<open>A Python set of strings: a list without duplicates; \<open>set_add\<close> is
  \<^verbatim>\<open>categories.add\<close>, \<open>set_iter\<close> the order in which the process iterates it.\<close>

definition set_add :: "string \<Rightarrow> string list \<Rightarrow> string list" where
  "set_add s xs = (if s \<in> set xs then xs else xs @ [s])"

definition set_iter :: "env \<Rightarrow> string list \<Rightarrow> string list" where
  "set_iter env xs = sort_key (str_hash env) xs"

section \<open>The row builder\<close>

definition HEADERS :: "string list" where
  "HEADERS = [''Mod Name'', ''Description'', ''Detail'', ''Category'', ''Links'',
     ''File Name'', ''Updated At'']"

definition CATEGORIES_COL_INDEX :: nat where
  "CATEGORIES_COL_INDEX = 11"

definition DATA_ROW_HEIGHT :: nat where
  "DATA_ROW_HEIGHT = 15"

text \<open>\<^verbatim>\<open>value[:-1] + "+00:00" if value.endswith("Z") else value\<close>\<close>

definition normalized :: "string \<Rightarrow> string" where
  "normalized s = (if endswith s ''Z'' then butlast s @ ''+00:00'' else s)"

text \<open>
  \<^verbatim>\<open>iso_to_datetime\<close>: a falsy value gives \<^verbatim>\<open>None\<close>; \<^verbatim>\<open>value.endswith\<close> exists on a
  string only; the \<^verbatim>\<open>try\<close> block covers the parse and the conversion, and its handler
  catches \<^verbatim>\<open>ValueError\<close> alone.
\<close>

definition iso_try_block :: "env \<Rightarrow> pyval \<Rightarrow> exn + datetime" where
  "iso_try_block env v =
     (case v of
        PStr s \<Rightarrow>
          then_do (fromisoformat env (normalized s)) (\<lambda>parsed.
            if tzinfo parsed \<noteq> None
            then then_do (astimezone env parsed) (\<lambda>local. Inr (local\<lparr>tzinfo := None\<rparr>))
            else Inr parsed)
      | _ \<Rightarrow> Inl AttributeError)"

definition iso_to_datetime :: "env \<Rightarrow> pyval \<Rightarrow> exn + datetime option" where
  "iso_to_datetime env v =
     (if \<not> truthy v then Inr None
      else case iso_try_block env v of
             Inr parsed \<Rightarrow> Inr (Some parsed)
           | Inl e \<Rightarrow> (if e = ValueError then Inr None else Inl e))"

definition modrinth_link :: "env \<Rightarrow> pyval \<Rightarrow> exn + pyval" where
  "modrinth_link env project =
     then_do (dict_get project ''slug'') (\<lambda>s.
     then_do (or_else s (dict_get project ''id'')) (\<lambda>slug.
       if \<not> truthy slug then Inr PNone
       else Inr (PStr (''https://modrinth.com/mod/'' @ format_field env slug))))"

definition mod_display_name :: "pyval \<Rightarrow> pyval \<Rightarrow> exn + pyval" where
  "mod_display_name m project =
     (if truthy project then
        then_do (dict_get project ''title'') (\<lambda>title.
          or_else title (then_do (dict_get m ''name'') (\<lambda>name.
          or_else name (then_do (dict_get m ''file'') (\<lambda>file.
            Inr (py_or file (PStr '''')))))))
      else
        then_do (dict_get m ''name'') (\<lambda>name.
          or_else name (then_do (dict_get m ''file'') (\<lambda>file.
            Inr (py_or file (PStr ''''))))))"

text \<open>Lines 85 to 87: each truthy element of the category list is added to the set.
  The join of line 84 has already raised unless each of them is a string; a list or
  a dictionary is not hashable.\<close>

fun add_categories :: "pyval list \<Rightarrow> string list \<Rightarrow> exn + string list" where
  "add_categories [] categories = Inr categories"
| "add_categories (cat # rest) categories =
     (if truthy cat then
        (case cat of
           PStr s \<Rightarrow> add_categories rest (set_add s categories)
         | _ \<Rightarrow> Inl TypeError)
      else add_categories rest categories)"

text \<open>Lines 98 and 99: the value of the \<^verbatim>\<open>Updated At\<close> field. A \<^verbatim>\<open>datetime\<close> is
  always truthy, so \<^verbatim>\<open>updated_dt if updated_dt else ...\<close> tests for \<^verbatim>\<open>None\<close>.\<close>

definition updated_value :: "env \<Rightarrow> pyval \<Rightarrow> exn + pyval" where
  "updated_value env updated_raw =
     then_do (iso_to_datetime env updated_raw) (\<lambda>updated_dt.
       Inr (case updated_dt of
              Some d \<Rightarrow> PDatetime d
            | None \<Rightarrow> py_or updated_raw (PStr '''')))"

type_synonym row = "(string \<times> pyval) list"

text \<open>The body of the loop of \<^verbatim>\<open>build_rows\<close>, lines 78 to 112: the row of one mod and
  the category set after it.\<close>

definition build_row :: "env \<Rightarrow> string list \<Rightarrow> pyval \<Rightarrow> exn + row \<times> string list" where
  "build_row env categories m =
     then_do (dict_get m ''modrinthProject'') (\<lambda>project.
     then_do
       (if truthy project then
          then_do (dict_get project ''description'') (\<lambda>d.
          then_do (dict_get project ''body'') (\<lambda>b.
          then_do (dict_get project ''categories'') (\<lambda>c.
          then_do (iter_values (py_or c (PList []))) (\<lambda>category_list.
          then_do (str_join '';'' (filter truthy category_list)) (\<lambda>category.
          then_do (add_categories category_list categories) (\<lambda>categories'.
          then_do (modrinth_link env project) (\<lambda>link_url.
          then_do (dict_get project ''updated'') (\<lambda>updated_raw.
            Inr (py_or d (PStr ''''), py_or b (PStr ''''), PStr category,
                 PStr (if truthy link_url then ''Modrinth'' else ''''),
                 link_url, updated_raw, categories')))))))))
        else
          Inr (PStr ''No Modrinth source available (untrusted source)'', PStr '''',
               PStr '''', PStr ''No Modrinth'', PNone, PNone, categories))
       (\<lambda>(description, detail, category, link_text, link_url, updated_raw, categories').
     then_do (updated_value env updated_raw) (\<lambda>updated.
     then_do (mod_display_name m project) (\<lambda>display_name.
     then_do (dict_get m ''file'') (\<lambda>file.
       Inr ([(''Mod Name'', display_name),
             (''Description'', description),
             (''Detail'', detail),
             (''Category'', category),
             (''Links'', link_text),
             (''Links_url'', link_url),
             (''File Name'', py_or file (PStr '''')),
             (''Updated At'', updated)],
            categories'))))))"

fun build_rows_loop ::
  "env \<Rightarrow> row list \<Rightarrow> string list \<Rightarrow> pyval list \<Rightarrow> exn + row list \<times> string list" where
  "build_rows_loop env rows categories [] = Inr (rows, categories)"
| "build_rows_loop env rows categories (m # mods) =
     (case build_row env categories m of
        Inl e \<Rightarrow> Inl e
      | Inr (r, categories') \<Rightarrow> build_rows_loop env (rows @ [r]) categories' mods)"

definition build_rows :: "env \<Rightarrow> pyval list \<Rightarrow> string \<Rightarrow> exn + row list \<times> string list" where
  "build_rows env mods mods_dir = build_rows_loop env [] [] mods"

section \<open>The report writer\<close>

text \<open>
  The spreadsheet library is a black box that records what the program asks of it:
  a worksheet holds its cells by (row, column), the row heights, the column widths
  and the tables. \<open>ws_cell\<close> is \<^verbatim>\<open>ws.cell(row, column, value)\<close>: it returns the cell
  at this place, created when missing, and stores the value unless the value is
  \<^verbatim>\<open>None\<close>. Setting \<^verbatim>\<open>cell.hyperlink\<close> also gives the target as value to a cell
  that has none.
\<close>

record alignment =
  wrap_text :: bool
  vertical :: string

record cell =
  cell_value :: pyval
  hyperlink :: "pyval option"
  style :: string
  number_format :: string
  cell_alignment :: "alignment option"

record table_style =
  style_name :: string
  showFirstColumn :: bool
  showLastColumn :: bool
  showRowStripes :: bool
  showColumnStripes :: bool

record table =
  displayName :: string
  ref :: string
  tableStyleInfo :: table_style

record worksheet =
  title :: string
  freeze_panes :: "string option"
  cells :: "nat \<times> nat \<Rightarrow> cell option"
  row_height :: "nat \<Rightarrow> nat option"
  column_width :: "string \<Rightarrow> nat option"
  tables :: "table list"

definition new_cell :: cell where
  "new_cell = \<lparr>cell_value = PNone, hyperlink = None, style = ''Normal'',
     number_format = ''General'', cell_alignment = None\<rparr>"

definition new_worksheet :: worksheet where
  "new_worksheet = \<lparr>title = ''Sheet'', freeze_panes = None, cells = (\<lambda>_. None),
     row_height = (\<lambda>_. None), column_width = (\<lambda>_. None), tables = []\<rparr>"

definition get_cell :: "worksheet \<Rightarrow> nat \<Rightarrow> nat \<Rightarrow> cell" where
  "get_cell ws r c = (case cells ws (r, c) of None \<Rightarrow> new_cell | Some x \<Rightarrow> x)"

definition put_cell :: "worksheet \<Rightarrow> nat \<Rightarrow> nat \<Rightarrow> cell \<Rightarrow> worksheet" where
  "put_cell ws r c x = ws\<lparr>cells := (cells ws)((r, c) := Some x)\<rparr>"

definition ws_cell :: "worksheet \<Rightarrow> nat \<Rightarrow> nat \<Rightarrow> pyval \<Rightarrow> worksheet" where
  "ws_cell ws r c v =
     (let x = get_cell ws r c
      in put_cell ws r c (if v = PNone then x else x\<lparr>cell_value := v\<rparr>))"

definition set_hyperlink :: "pyval \<Rightarrow> cell \<Rightarrow> cell" where
  "set_hyperlink target x =
     (let x' = x\<lparr>hyperlink := Some target\<rparr>
      in if cell_value x' = PNone then x'\<lparr>cell_value := target\<rparr> else x')"

text \<open>Decimal digits of a number and the letters of a column, for the table's range
  and the keys of the column widths.\<close>

fun str_nat :: "nat \<Rightarrow> string" where
  "str_nat n =
     (if n < 10 then [char_of (48 + n)]
      else str_nat (n div 10) @ [char_of (48 + n mod 10)])"

fun get_column_letter :: "nat \<Rightarrow> string" where
  "get_column_letter n =
     (if n = 0 then []
      else get_column_letter ((n - 1) div 26) @ [char_of (65 + (n - 1) mod 26)])"

definition row_get :: "row \<Rightarrow> string \<Rightarrow> pyval \<Rightarrow> pyval" where
  "row_get r key dflt = (case map_of r key of None \<Rightarrow> dflt | Some v \<Rightarrow> v)"

definition wrap_columns :: "string list" where
  "wrap_columns = [''Description'', ''Detail'', ''Category'']"

definition is_datetime :: "pyval \<Rightarrow> bool" where
  "is_datetime v = (case v of PDatetime d \<Rightarrow> True | _ \<Rightarrow> False)"

text \<open>Lines 134 to 145: what the inner loop does to the cell of one row and one
  header. \<^verbatim>\<open>row["Links_url"]\<close> is only read where \<^verbatim>\<open>row.get("Links_url")\<close> is truthy, so
  the key is there and both read the same value.\<close>

definition style_cell :: "row \<Rightarrow> string \<Rightarrow> pyval \<Rightarrow> cell \<Rightarrow> cell" where
  "style_cell r header v x =
     (let x1 = (if header = ''Links'' \<and> truthy (row_get r ''Links_url'' PNone)
                then (set_hyperlink (row_get r ''Links_url'' PNone) x)\<lparr>style := ''Hyperlink''\<rparr>
                else x);
          x2 = (if header = ''Updated At'' \<and> is_datetime v
                then x1\<lparr>number_format := ''yyyy-mm-dd hh:mm:ss''\<rparr>
                else x1)
      in if header \<in> set wrap_columns
         then x2\<lparr>cell_alignment := Some \<lparr>wrap_text = True, vertical = ''top''\<rparr>\<rparr>
         else x2)"

text \<open>Lines 133 to 145, one turn of the inner loop, and lines 132 to 146, one turn
  of the outer loop with the row height.\<close>

definition write_data_cell :: "nat \<Rightarrow> row \<Rightarrow> nat \<times> string \<Rightarrow> worksheet \<Rightarrow> worksheet" where
  "write_data_cell row_idx r = (\<lambda>(col_idx, header) ws.
     (let v = row_get r header (PStr '''');
          ws' = ws_cell ws row_idx col_idx v
      in put_cell ws' row_idx col_idx (style_cell r header v (get_cell ws' row_idx col_idx))))"

definition write_data_row :: "nat \<times> row \<Rightarrow> worksheet \<Rightarrow> worksheet" where
  "write_data_row = (\<lambda>(row_idx, r) ws.
     (let ws' = fold (write_data_cell row_idx r) (enumerate 1 HEADERS) ws
      in ws'\<lparr>row_height := (row_height ws')(row_idx := Some DATA_ROW_HEIGHT)\<rparr>))"

text \<open>Lines 149 to 161: the table over the header and the data rows, when there is
  a row.\<close>

definition add_mods_table :: "row list \<Rightarrow> worksheet \<Rightarrow> worksheet" where
  "add_mods_table rows ws =
     (if rows \<noteq> [] then
        (let last_row = 1 + length rows;
             table_ref = ''A1:'' @ get_column_letter (length HEADERS) @ str_nat last_row;
             t = \<lparr>displayName = ''ModsTable'', ref = table_ref,
                  tableStyleInfo = \<lparr>style_name = ''TableStyleMedium9'',
                    showFirstColumn = False, showLastColumn = False,
                    showRowStripes = True, showColumnStripes = False\<rparr>\<rparr>
         in ws\<lparr>tables := tables ws @ [t]\<rparr>)
      else ws)"

text \<open>Lines 165 and 166: the width of one column, by its letter.\<close>

definition set_width :: "nat \<times> nat \<Rightarrow> worksheet \<Rightarrow> worksheet" where
  "set_width = (\<lambda>(idx, width) ws.
     ws\<lparr>column_width := (column_width ws)(get_column_letter idx := Some width)\<rparr>)"

text \<open>\<^verbatim>\<open>sorted(categories, key=str.lower)\<close>: a stable sort of the set as the process
  iterates it.\<close>

definition sorted_categories :: "env \<Rightarrow> string list \<Rightarrow> string list" where
  "sorted_categories env categories = sort_key (str_lower env) (set_iter env categories)"

text \<open>Lines 169 to 173: the header of the side list, one cell for each category,
  and the width of the side column.\<close>

definition write_categories :: "env \<Rightarrow> string list \<Rightarrow> worksheet \<Rightarrow> worksheet" where
  "write_categories env categories ws =
     (let ws1 = ws_cell ws 1 CATEGORIES_COL_INDEX (PStr ''Categorias'');
          ws2 = fold (\<lambda>(offset, category) w. ws_cell w offset CATEGORIES_COL_INDEX (PStr category))
                  (enumerate 2 (sorted_categories env categories)) ws1
      in set_width (CATEGORIES_COL_INDEX, 25) ws2)"

text \<open>\<^verbatim>\<open>write_excel\<close> up to its last line: the worksheet that \<^verbatim>\<open>wb.save\<close> receives.\<close>

definition write_excel_sheet :: "env \<Rightarrow> row list \<Rightarrow> string list \<Rightarrow> string \<Rightarrow> worksheet" where
  "write_excel_sheet env rows categories sheet_name =
     (let ws0 = new_worksheet\<lparr>title := sheet_name, freeze_panes := Some ''A2''\<rparr>;
          ws1 = fold (\<lambda>(col_idx, header) w. ws_cell w 1 col_idx (PStr header))
                  (enumerate 1 HEADERS) ws0;
          ws2 = fold write_data_row (enumerate 2 rows) ws1;
          ws3 = add_mods_table rows ws2;
          ws4 = fold set_width (enumerate 1 [30, 50, 60, 30, 15, 40, 20]) ws3
      in write_categories env categories ws4)"

section \<open>The command\<close>

text \<open>
  The world outside the process: which paths are files, what \<^verbatim>\<open>open\<close> and
  \<^verbatim>\<open>json.load\<close> give for a path (a parse error is a \<^verbatim>\<open>ValueError\<close>), whether saving
  to a path fails, and what the process has done so far: the paths it has opened,
  the lines it has printed and the workbooks it has saved.
\<close>

record world =
  isfile :: "string \<Rightarrow> bool"
  file_json :: "string \<Rightarrow> exn + pyval"
  save_error :: "string \<Rightarrow> exn option"
  opened :: "string list"
  console :: "string list"
  saved :: "(string \<times> worksheet) list"

definition load_instance :: "world \<Rightarrow> string \<Rightarrow> (exn + pyval) \<times> world" where
  "load_instance w path = (file_json w path, w\<lparr>opened := opened w @ [path]\<rparr>)"

definition write_excel ::
  "env \<Rightarrow> world \<Rightarrow> string \<Rightarrow> row list \<Rightarrow> string list \<Rightarrow> string \<Rightarrow> (exn + unit) \<times> world" where
  "write_excel env w output_path rows categories sheet_name =
     (let ws = write_excel_sheet env rows categories sheet_name
      in case save_error w output_path of
           Some e \<Rightarrow> (Inl e, w)
         | None \<Rightarrow> (Inr (), w\<lparr>saved := saved w @ [(output_path, ws)]\<rparr>))"

text \<open>Lines 186 to 194 of \<^verbatim>\<open>main\<close>: from the parsed document to the output path, the
  rows and the categories.\<close>

definition prepare ::
  "env \<Rightarrow> string \<Rightarrow> pyval \<Rightarrow> exn + string \<times> row list \<times> string list" where
  "prepare env instance_path inst =
     then_do (dict_get_default inst ''launcher'' (PDict [])) (\<lambda>launcher.
     then_do (dict_get_default launcher ''mods'' (PList [])) (\<lambda>mods.
       let instance_dir = dirname env instance_path;
           mods_dir = path_join env instance_dir ''mods''
       in then_do (dict_get launcher ''version'') (\<lambda>v.
          let version = py_or v (PStr ''Unknown'');
              output_path = path_join env instance_dir
                (''Mods '' @ format_field env version @ ''.xlsx'')
          in then_do (iter_values mods) (\<lambda>mod_list.
             then_do (build_rows env mod_list mods_dir) (\<lambda>(rows, categories).
               Inr (output_path, rows, categories))))))"

definition main :: "env \<Rightarrow> world \<Rightarrow> string \<Rightarrow> (exn + int) \<times> world" where
  "main env w instance_json =
     (let instance_path = abspath env instance_json
      in if \<not> isfile w instance_path
         then (Inr 1, w\<lparr>console := console w @ [''File not found: '' @ instance_path]\<rparr>)
         else
           (case load_instance w instance_path of
              (Inl e, w1) \<Rightarrow> (Inl e, w1)
            | (Inr inst, w1) \<Rightarrow>
                (case prepare env instance_path inst of
                   Inl e \<Rightarrow> (Inl e, w1)
                 | Inr (output_path, rows, categories) \<Rightarrow>
                     (case write_excel env w1 output_path rows categories ''Mods'' of
                        (Inl e, w2) \<Rightarrow> (Inl e, w2)
                      | (Inr u, w2) \<Rightarrow>
                          (Inr 0, w2\<lparr>console := console w2 @
                             [''Excel report generated: '' @ output_path]\<rparr>)))))"


section \<open>Well-formed entries and an example host\<close>

text \<open>
  The entries the row builder is written for: a Mod Entry is an object; its
  \<^verbatim>\<open>modrinthProject\<close> is absent or falsy, or an object whose \<^verbatim>\<open>categories\<close> are falsy or
  a list of strings and falsy tags, and whose \<^verbatim>\<open>updated\<close> is falsy or a string that
  the host library parses, or rejects with \<^verbatim>\<open>ValueError\<close>, and converts.
\<close>

definition is_str :: "pyval \<Rightarrow> bool" where
  "is_str v = (case v of PStr s \<Rightarrow> True | _ \<Rightarrow> False)"

definition wf_categories :: "pyval \<Rightarrow> bool" where
  "wf_categories c =
     (if truthy c
      then (case c of PList xs \<Rightarrow> list_all (\<lambda>x. if truthy x then is_str x else True) xs
            | _ \<Rightarrow> False)
      else True)"

definition wf_updated :: "env \<Rightarrow> pyval \<Rightarrow> bool" where
  "wf_updated env u =
     (if truthy u
      then is_str u \<and> (case iso_to_datetime env u of Inr d \<Rightarrow> True | Inl e \<Rightarrow> False)
      else True)"

definition wf_project :: "env \<Rightarrow> pyval \<Rightarrow> bool" where
  "wf_project env p =
     (case p of
        PDict kvs \<Rightarrow>
          wf_categories (case map_of kvs ''categories'' of None \<Rightarrow> PNone | Some c \<Rightarrow> c) \<and>
          wf_updated env (case map_of kvs ''updated'' of None \<Rightarrow> PNone | Some u \<Rightarrow> u)
      | _ \<Rightarrow> False)"

definition wf_mod :: "env \<Rightarrow> pyval \<Rightarrow> bool" where
  "wf_mod env m =
     (case m of
        PDict kvs \<Rightarrow>
          (case map_of kvs ''modrinthProject'' of
             None \<Rightarrow> True
           | Some p \<Rightarrow> (if truthy p then wf_project env p else True))
      | _ \<Rightarrow> False)"

text \<open>
  A host for the examples. Its parser is a table: what \<^verbatim>\<open>datetime.fromisoformat\<close>
  gives for the two timestamps of the examples, and \<^verbatim>\<open>ValueError\<close> elsewhere (as for
  \<^verbatim>\<open>"not-a-date"\<close>). Its local zone is UTC, so converting a value of offset zero
  leaves the fields as they are. Letters are lowered in ASCII, and paths are POSIX
  paths that are absolute already.
\<close>

definition example_fromisoformat :: "string \<Rightarrow> exn + datetime" where
  "example_fromisoformat s =
     (if s = ''2024-03-01T10:00:00+00:00''
      then Inr \<lparr>year = 2024, month = 3, day = 1, hour = 10, minute = 0, second = 0,
                microsecond = 0, tzinfo = Some 0\<rparr>
      else if s = ''2024-03-01T10:00:00''
      then Inr \<lparr>year = 2024, month = 3, day = 1, hour = 10, minute = 0, second = 0,
                microsecond = 0, tzinfo = None\<rparr>
      else Inl ValueError)"

definition ascii_lower :: "string \<Rightarrow> string" where
  "ascii_lower s =
     map (\<lambda>c. if CHR ''A'' \<le> c \<and> c \<le> CHR ''Z'' then char_of (of_char c + (32::nat)) else c) s"

definition example_dirname :: "string \<Rightarrow> string" where
  "example_dirname p = rev (tl (dropWhile (\<lambda>c. c \<noteq> CHR ''/'') (rev p)))"

definition example_host :: env where
  "example_host =
     \<lparr>fromisoformat = example_fromisoformat,
      astimezone = (\<lambda>d. Inr d),
      py_format = (\<lambda>v. case v of PInt i \<Rightarrow> (if 0 \<le> i then str_nat (nat i) else ''-'' @ str_nat (nat (- i)))
                       | _ \<Rightarrow> ''<object>''),
      str_lower = ascii_lower,
      str_hash = (\<lambda>s. 0),
      abspath = (\<lambda>p. p),
      dirname = example_dirname,
      path_join = (\<lambda>d f. d @ ''/'' @ f)\<rparr>"

definition example_world :: "pyval \<Rightarrow> world" where
  "example_world doc =
     \<lparr>isfile = (\<lambda>p. p = ''/games/pack/instance.json''),
      file_json = (\<lambda>p. if p = ''/games/pack/instance.json'' then Inr doc else Inl OSError),
      save_error = (\<lambda>p. None),
      opened = [], console = [], saved = []\<rparr>"

section \<open>Notions used to state the properties\<close>

text \<open>The tags that survive in a category list: its strings that are not empty.\<close>

fun tags_of :: "pyval list \<Rightarrow> string list" where
  "tags_of [] = []"
| "tags_of (PStr s # xs) = (if s \<noteq> [] then s # tags_of xs else tags_of xs)"
| "tags_of (_ # xs) = tags_of xs"

text \<open>The surviving tags of a Mod Entry: the strings among the truthy elements of
  \<^verbatim>\<open>project.get("categories") or []\<close> for its enrichment project, none when the
  project is missing or falsy.\<close>

definition spec_tags :: "pyval \<Rightarrow> string list" where
  "spec_tags m =
     (case dict_get m ''modrinthProject'' of
        Inr p \<Rightarrow>
          (if truthy p
           then (case dict_get p ''categories'' of
                   Inr c \<Rightarrow>
                     (case iter_values (py_or c (PList [])) of
                        Inr xs \<Rightarrow> tags_of xs
                      | Inl e \<Rightarrow> [])
                 | Inl e \<Rightarrow> [])
           else [])
      | Inl e \<Rightarrow> [])"

text \<open>The cell that lines 134 to 145 leave at a place where the sheet had no cell.\<close>

definition data_cell :: "row \<Rightarrow> string \<Rightarrow> cell" where
  "data_cell r header =
     (let v = row_get r header (PStr '''')
      in style_cell r header v (if v = PNone then new_cell else new_cell\<lparr>cell_value := v\<rparr>))"

text \<open>Three entries for the examples: one enriched from the catalog, one without
  enrichment, one whose timestamp does not parse.\<close>

definition example_enriched :: pyval where
  "example_enriched =
     PDict [(''name'', PStr ''sodium-fabric''), (''file'', PStr ''sodium.jar''),
       (''modrinthProject'',
        PDict [(''title'', PStr ''Sodium''), (''description'', PStr ''Fast rendering''),
          (''categories'', PList [PStr ''Magic'', PNone, PStr '''', PStr ''magic'']),
          (''slug'', PStr ''sodium''), (''updated'', PStr ''2024-03-01T10:00:00Z'')])]"

definition example_plain :: pyval where
  "example_plain = PDict [(''name'', PStr ''Local''), (''file'', PStr ''local.jar'')]"

definition example_undated :: pyval where
  "example_undated =
     PDict [(''file'', PStr ''x.jar''),
       (''modrinthProject'',
        PDict [(''updated'', PStr ''not-a-date''),
          (''categories'', PList [PStr ''adventure'', PStr ''magic''])])]"

text \<open>An entry whose \<^verbatim>\<open>updated\<close> is a number (seconds since the epoch) and a document
  that holds it.\<close>

definition example_numeric :: pyval where
  "example_numeric =
     PDict [(''file'', PStr ''a.jar''),
       (''modrinthProject'', PDict [(''slug'', PStr ''a''), (''updated'', PInt 1709287200)])]"

definition example_document :: "pyval list \<Rightarrow> pyval" where
  "example_document mods =
     PDict [(''launcher'', PDict [(''version'', PStr ''1.2''), (''mods'', PList mods)])]"

text \<open>The same host in another process, whose string hash orders \<^verbatim>\<open>"Magic"\<close> after the
  other strings.\<close>

definition other_hash :: "string \<Rightarrow> nat" where
  "other_hash s = (if s = ''Magic'' then 1 else 0)"

definition example_host_rehashed :: env where
  "example_host_rehashed = example_host\<lparr>str_hash := other_hash\<rparr>"
lemma then_do_Inr_iff: "then_do m f = Inr y \<longleftrightarrow> (\<exists>x. m = Inr x \<and> f x = Inr y)"
  by (cases m) (simp_all add: then_do_def)

lemma then_do_Inl_iff: "then_do m f = Inl e \<longleftrightarrow> (m = Inl e \<or> (\<exists>x. m = Inr x \<and> f x = Inl e))"
  by (cases m) (simp_all add: then_do_def)

lemma then_do_simps [simp]: "then_do (Inr x) f = f x" "then_do (Inl e) f = Inl e"
  by (simp_all add: then_do_def)


lemma as_strs_map: "as_strs (map PStr ss) = Inr ss"
  by (induction ss) simp_all

lemma add_categories_strs:
  "as_strs (filter truthy xs) = Inr ss \<Longrightarrow> add_categories xs c = Inr (fold set_add ss c)"
proof (induction xs arbitrary: ss c)
  case Nil
  then show ?case by simp
next
  case (Cons x xs)
  then show ?case by (cases x) (auto simp: then_do_Inr_iff split: if_splits)
qed


lemma wf_list_strs:
  "list_all (\<lambda>x. if truthy x then is_str x else True) xs \<Longrightarrow> as_strs (filter truthy xs) = Inr (tags_of xs)"
proof (induction xs)
  case Nil
  then show ?case by simp
next
  case (Cons x xs)
  then show ?case by (cases x) (auto simp: is_str_def split: if_splits)
qed




lemma dict_get_PDict: "dict_get (PDict kvs) k = Inr (case map_of kvs k of None \<Rightarrow> PNone | Some v \<Rightarrow> v)"
  by (simp add: dict_get_def)


lemma iso_wf: "wf_updated env u \<Longrightarrow> \<exists>v. updated_value env u = Inr v"
  by (auto simp: wf_updated_def updated_value_def iso_to_datetime_def split: if_splits sum.splits)

lemma modrinth_link_dict: "\<exists>v. modrinth_link env (PDict p) = Inr v"
  by (simp add: modrinth_link_def dict_get_PDict or_else_def)

lemma mod_display_name_dict: "\<exists>v. mod_display_name (PDict kvs) (PDict p) = Inr v"
  by (simp add: mod_display_name_def dict_get_PDict or_else_def)

lemma mod_display_name_falsy: "\<not> truthy p \<Longrightarrow> \<exists>v. mod_display_name (PDict kvs) p = Inr v"
  by (simp add: mod_display_name_def dict_get_PDict or_else_def)

lemma wf_categories_iter:
  assumes "wf_categories c"
  shows "\<exists>xs. iter_values (py_or c (PList [])) = Inr xs \<and>
    as_strs (filter truthy xs) = Inr (tags_of xs) \<and>
    tags_of xs = (case c of PList ys \<Rightarrow> tags_of ys | _ \<Rightarrow> [])"
proof (cases "truthy c")
  case True
  with assms obtain ys where c: "c = PList ys"
    and ys: "list_all (\<lambda>x. if truthy x then is_str x else True) ys"
    by (cases c) (auto simp: wf_categories_def)
  from True c ys show ?thesis
    by (simp add: py_or_def wf_list_strs)
next
  case False
  then show ?thesis
    by (cases c) (auto simp: py_or_def)
qed

lemma build_row_wf:
  assumes "wf_mod env m"
  shows "\<exists>r. build_row env cats m = Inr (r, fold set_add (spec_tags m) cats) \<and>
    map_of r ''Category'' = Some (PStr (join_strs '';'' (spec_tags m)))"
proof -
  from assms obtain kvs where m: "m = PDict kvs"
    by (cases m) (auto simp: wf_mod_def)
  define p where "p = (case map_of kvs ''modrinthProject'' of None \<Rightarrow> PNone | Some v \<Rightarrow> v)"
  have get: "dict_get m ''modrinthProject'' = Inr p"
    by (simp add: m p_def dict_get_PDict)
  show ?thesis
  proof (cases "truthy p")
    case False
    obtain n where n: "mod_display_name (PDict kvs) p = Inr n"
      using mod_display_name_falsy [OF False] by blast
    from False get n show ?thesis
      by (simp add: build_row_def m spec_tags_def updated_value_def iso_to_datetime_def
          dict_get_PDict)
  next
    case True
    with assms have wfp: "wf_project env p"
      by (auto simp: wf_mod_def m p_def split: option.splits)
    then obtain q where q: "p = PDict q"
      by (cases p) (auto simp: wf_project_def)
    define c where "c = (case map_of q ''categories'' of None \<Rightarrow> PNone | Some v \<Rightarrow> v)"
    define u where "u = (case map_of q ''updated'' of None \<Rightarrow> PNone | Some v \<Rightarrow> v)"
    from wfp have wfc: "wf_categories c" and wfu: "wf_updated env u"
      by (simp_all add: wf_project_def q c_def u_def)
    from wf_categories_iter [OF wfc] obtain xs where
      xs: "iter_values (py_or c (PList [])) = Inr xs"
        "as_strs (filter truthy xs) = Inr (tags_of xs)"
        "tags_of xs = (case c of PList ys \<Rightarrow> tags_of ys | _ \<Rightarrow> [])"
      by blast
    have tags: "spec_tags m = tags_of xs"
      using True get xs(1) by (simp add: spec_tags_def q dict_get_PDict c_def)
    obtain v where v: "updated_value env u = Inr v"
      using iso_wf [OF wfu] by blast
    obtain l where l: "modrinth_link env (PDict q) = Inr l"
      using modrinth_link_dict by blast
    obtain n where n: "mod_display_name (PDict kvs) (PDict q) = Inr n"
      using mod_display_name_dict by blast
    have cq: "dict_get (PDict q) ''categories'' = Inr c" and uq: "dict_get (PDict q) ''updated'' = Inr u"
      by (simp_all add: dict_get_PDict c_def u_def)
    have gm: "dict_get (PDict kvs) ''modrinthProject'' = Inr (PDict q)"
      using get by (simp add: m q)
    have tq: "truthy (PDict q)" using True by (simp add: q)
    show ?thesis
      unfolding build_row_def m
      by (simp add: gm tq cq uq xs(1) xs(2) str_join_def add_categories_strs [OF xs(2)] l v n tags [unfolded m]
          dict_get_PDict [of q "''description''"] dict_get_PDict [of q "''body''"] dict_get_PDict [of kvs "''file''"] del: truthy.simps)
  qed
qed

lemma fold_preserve: "(\<And>x w. g (f x w) = g w) \<Longrightarrow> g (fold f xs w) = g w"
  by (induction xs arbitrary: w) simp_all

lemma cells_put_cell [simp]: "cells (put_cell ws r c x) = (cells ws)((r, c) := Some x)"
  by (simp add: put_cell_def)

lemma get_cell_None: "cells ws (r, c) = None \<Longrightarrow> get_cell ws r c = new_cell"
  by (simp add: get_cell_def)

lemma cells_ws_cell:
  "cells (ws_cell ws r c v) =
     (cells ws)((r, c) := Some (if v = PNone then get_cell ws r c else (get_cell ws r c)\<lparr>cell_value := v\<rparr>))"
  by (simp add: ws_cell_def Let_def)

lemma get_cell_ws_cell_other:
  "(r', c') \<noteq> (r, c) \<Longrightarrow> get_cell (ws_cell ws r c v) r' c' = get_cell ws r' c'"
  by (auto simp: get_cell_def cells_ws_cell)

lemma cells_fold_row:
  "cells (fold (\<lambda>(col_idx, header) w. ws_cell w r0 col_idx (PStr header)) (enumerate n hs) ws) (r, c) =
     (if r = r0 \<and> n \<le> c \<and> c < n + length hs
      then Some ((get_cell ws r0 c)\<lparr>cell_value := PStr (hs ! (c - n))\<rparr>)
      else cells ws (r, c))"
proof (induction hs arbitrary: n ws)
  case Nil
  then show ?case by auto
next
  case (Cons h hs)
  have other: "get_cell (ws_cell ws r0 n (PStr h)) r0 c = get_cell ws r0 c" if "c \<noteq> n"
    using that by (simp add: get_cell_ws_cell_other)
  show ?case
    using Cons.IH [of "Suc n" "ws_cell ws r0 n (PStr h)"] other
    by (auto simp: cells_ws_cell get_cell_def Suc_diff_le nth_Cons')
qed

lemma cells_fold_col:
  "cells (fold (\<lambda>(offset, category) w. ws_cell w offset c0 (PStr category)) (enumerate n cs) ws) (r, c) =
     (if c = c0 \<and> n \<le> r \<and> r < n + length cs
      then Some ((get_cell ws r c0)\<lparr>cell_value := PStr (cs ! (r - n))\<rparr>)
      else cells ws (r, c))"
proof (induction cs arbitrary: n ws)
  case Nil
  then show ?case by auto
next
  case (Cons h hs)
  have other: "get_cell (ws_cell ws n c0 (PStr h)) r c0 = get_cell ws r c0" if "r \<noteq> n"
    using that by (simp add: get_cell_ws_cell_other)
  show ?case
    using Cons.IH [of "Suc n" "ws_cell ws n c0 (PStr h)"] other
    by (auto simp: cells_ws_cell get_cell_def Suc_diff_le nth_Cons')
qed

lemma cells_write_data_cell:
  assumes "cells ws (i, c) = None"
  shows "cells (write_data_cell i r (c, h) ws) = (cells ws)((i, c) := Some (data_cell r h))"
  using assms
  by (simp add: write_data_cell_def Let_def data_cell_def cells_ws_cell get_cell_def)

lemma cells_fold_data_cells:
  assumes "\<forall>c\<ge>n. cells ws (i, c) = None"
  shows "cells (fold (write_data_cell i r) (enumerate n hs) ws) (r', c') =
     (if r' = i \<and> n \<le> c' \<and> c' < n + length hs
      then Some (data_cell r (hs ! (c' - n)))
      else cells ws (r', c'))"
  using assms
proof (induction hs arbitrary: n ws)
  case Nil
  then show ?case by simp
next
  case (Cons h hs)
  have here: "cells ws (i, n) = None"
    using Cons.prems by simp
  let ?ws = "write_data_cell i r (n, h) ws"
  have next_free: "\<forall>c\<ge>Suc n. cells ?ws (i, c) = None"
    using Cons.prems by (simp add: cells_write_data_cell [OF here])
  show ?case
    using Cons.IH [OF next_free]
    by (auto simp: cells_write_data_cell [OF here] Suc_diff_le nth_Cons')
qed

lemma cells_write_data_row:
  assumes "\<forall>c\<ge>1. cells ws (i, c) = None"
  shows "cells (write_data_row (i, r) ws) (r', c') =
     (if r' = i \<and> 1 \<le> c' \<and> c' < 1 + length HEADERS
      then Some (data_cell r (HEADERS ! (c' - 1)))
      else cells ws (r', c'))"
  using cells_fold_data_cells [OF assms, of r HEADERS r' c']
  by (simp add: write_data_row_def Let_def)

lemma cells_fold_data_rows:
  assumes "\<forall>i\<ge>n. \<forall>c\<ge>1. cells ws (i, c) = None"
  shows "cells (fold write_data_row (enumerate n rows) ws) (r', c') =
     (if n \<le> r' \<and> r' < n + length rows \<and> 1 \<le> c' \<and> c' < 1 + length HEADERS
      then Some (data_cell (rows ! (r' - n)) (HEADERS ! (c' - 1)))
      else cells ws (r', c'))"
  using assms
proof (induction rows arbitrary: n ws)
  case Nil
  then show ?case by simp
next
  case (Cons r rows)
  have here: "\<forall>c\<ge>1. cells ws (n, c) = None"
    using Cons.prems by simp
  let ?ws = "write_data_row (n, r) ws"
  have next_free: "\<forall>i\<ge>Suc n. \<forall>c\<ge>1. cells ?ws (i, c) = None"
    using Cons.prems by (simp add: cells_write_data_row [OF here])
  show ?case
    using Cons.IH [OF next_free]
    by (auto simp: cells_write_data_row [OF here] Suc_diff_le nth_Cons')
qed



lemma length_HEADERS: "length HEADERS = 7"
  by (simp add: HEADERS_def)

lemma cells_add_mods_table: "cells (add_mods_table rows ws) = cells ws"
  by (simp add: add_mods_table_def Let_def)

lemma cells_set_width: "cells (set_width p ws) = cells ws"
  by (cases p) (simp add: set_width_def)

lemma cells_fold_set_width: "cells (fold set_width xs ws) = cells ws"
  by (rule fold_preserve) (rule cells_set_width)

lemma cells_header:
  assumes "cells ws = (\<lambda>_. None)"
  shows "cells (fold (\<lambda>(col_idx, header) w. ws_cell w 1 col_idx (PStr header)) (enumerate 1 HEADERS) ws) (r, c) =
     (if r = 1 \<and> 1 \<le> c \<and> c < 1 + length HEADERS
      then Some (new_cell\<lparr>cell_value := PStr (HEADERS ! (c - 1))\<rparr>)
      else None)"
  using assms by (simp add: cells_fold_row get_cell_def)

lemma cells_write_categories:
  "cells (write_categories env cats ws) (r, c) =
     (if c = CATEGORIES_COL_INDEX \<and> r = 1
      then Some ((get_cell ws 1 CATEGORIES_COL_INDEX)\<lparr>cell_value := PStr ''Categorias''\<rparr>)
      else if c = CATEGORIES_COL_INDEX \<and> 2 \<le> r \<and> r < 2 + length (sorted_categories env cats)
      then Some ((get_cell ws r CATEGORIES_COL_INDEX)\<lparr>cell_value := PStr (sorted_categories env cats ! (r - 2))\<rparr>)
      else cells ws (r, c))"
  by (auto simp: write_categories_def Let_def cells_set_width cells_fold_col cells_ws_cell
      get_cell_ws_cell_other)


lemma cells_write_excel_sheet:
  "cells (write_excel_sheet env rows cats name) (r, c) =
     (if c = CATEGORIES_COL_INDEX then
        (if r = 1 then Some (new_cell\<lparr>cell_value := PStr ''Categorias''\<rparr>)
         else if 2 \<le> r \<and> r < 2 + length (sorted_categories env cats)
         then Some (new_cell\<lparr>cell_value := PStr (sorted_categories env cats ! (r - 2))\<rparr>)
         else None)
      else if 1 \<le> c \<and> c \<le> length HEADERS then
        (if r = 1 then Some (new_cell\<lparr>cell_value := PStr (HEADERS ! (c - 1))\<rparr>)
         else if 2 \<le> r \<and> r < 2 + length rows
         then Some (data_cell (rows ! (r - 2)) (HEADERS ! (c - 1)))
         else None)
      else None)"
proof -
  define ws0 where "ws0 = new_worksheet\<lparr>title := name, freeze_panes := Some ''A2''\<rparr>"
  define ws1 where "ws1 = fold (\<lambda>(col_idx, header) w. ws_cell w 1 col_idx (PStr header))
    (enumerate 1 HEADERS) ws0"
  define ws2 where "ws2 = fold write_data_row (enumerate 2 rows) ws1"
  define ws4 where "ws4 = fold set_width (enumerate 1 [30, 50, 60, 30, 15, 40, 20]) (add_mods_table rows ws2)"
  have sheet: "write_excel_sheet env rows cats name = write_categories env cats ws4"
    unfolding write_excel_sheet_def Let_def ws0_def ws1_def ws2_def ws4_def ..
  have c0: "cells ws0 = (\<lambda>_. None)"
    by (simp add: ws0_def new_worksheet_def)
  have c1: "cells ws1 (i, j) =
     (if i = 1 \<and> 1 \<le> j \<and> j < 1 + length HEADERS
      then Some (new_cell\<lparr>cell_value := PStr (HEADERS ! (j - 1))\<rparr>) else None)" for i j
    unfolding ws1_def by (rule cells_header [OF c0])
  have free: "\<forall>i\<ge>2. \<forall>c\<ge>1. cells ws1 (i, c) = None"
    by (simp add: c1)
  have c2: "cells ws2 (i, j) =
     (if 2 \<le> i \<and> i < 2 + length rows \<and> 1 \<le> j \<and> j < 1 + length HEADERS
      then Some (data_cell (rows ! (i - 2)) (HEADERS ! (j - 1)))
      else cells ws1 (i, j))" for i j
    unfolding ws2_def by (rule cells_fold_data_rows [OF free])
  have c4: "cells ws4 = cells ws2"
    by (simp only: ws4_def cells_fold_set_width cells_add_mods_table)
  have none: "cells ws4 (i, CATEGORIES_COL_INDEX) = None" for i
    by (simp add: c4 c2 c1 CATEGORIES_COL_INDEX_def length_HEADERS)
  have side: "get_cell ws4 i CATEGORIES_COL_INDEX = new_cell" for i
    using none by (rule get_cell_None)
  show ?thesis
  proof (cases "c = CATEGORIES_COL_INDEX")
    case True
    then show ?thesis
      by (simp add: sheet cells_write_categories side none)
  next
    case False
    then have "cells (write_excel_sheet env rows cats name) (r, c) = cells ws2 (r, c)"
      by (simp add: sheet cells_write_categories c4)
    also have "\<dots> = (if 1 \<le> c \<and> c \<le> length HEADERS then
        (if r = 1 then Some (new_cell\<lparr>cell_value := PStr (HEADERS ! (c - 1))\<rparr>)
         else if 2 \<le> r \<and> r < 2 + length rows
         then Some (data_cell (rows ! (r - 2)) (HEADERS ! (c - 1)))
         else None)
      else None)"
      unfolding c2 c1 by (simp add: less_Suc_eq_le)
    finally show ?thesis
      using False by simp
  qed
qed
lemma tables_ws_cell: "tables (ws_cell ws r c v) = tables ws"
  by (simp add: ws_cell_def put_cell_def Let_def)

lemma tables_write_data_cell: "tables (write_data_cell i r q w) = tables w"
  by (cases q) (simp add: write_data_cell_def Let_def put_cell_def tables_ws_cell)

lemma tables_write_data_row: "tables (write_data_row p ws) = tables ws"
proof (cases p)
  case (Pair i r)
  have "tables (fold (write_data_cell i r) xs w) = tables w" for xs w
    by (rule fold_preserve) (rule tables_write_data_cell)
  then show ?thesis
    by (simp add: Pair write_data_row_def Let_def)
qed

lemma tables_set_width: "tables (set_width p ws) = tables ws"
  by (cases p) (simp add: set_width_def)

lemma tables_fold_ws_cell_col:
  "tables (fold (\<lambda>(offset, category) w. ws_cell w offset c0 (PStr category)) xs w) = tables w"
  by (rule fold_preserve) (simp add: tables_ws_cell split: prod.split)

lemma tables_fold_ws_cell_row:
  "tables (fold (\<lambda>(col_idx, header) w. ws_cell w r0 col_idx (PStr header)) xs w) = tables w"
  by (rule fold_preserve) (simp add: tables_ws_cell split: prod.split)

lemma tables_write_categories: "tables (write_categories env cats ws) = tables ws"
  by (simp only: write_categories_def Let_def tables_set_width tables_fold_ws_cell_col tables_ws_cell)

lemma tables_fold_write_data_row: "tables (fold write_data_row xs w) = tables w"
  by (rule fold_preserve) (rule tables_write_data_row)

lemma tables_fold_set_width: "tables (fold set_width xs w) = tables w"
  by (rule fold_preserve) (rule tables_set_width)

lemma tables_add_mods_table:
  "tables (add_mods_table rows ws) = (if rows \<noteq> [] then tables ws @ tables (add_mods_table rows new_worksheet) else tables ws)"
  by (simp add: add_mods_table_def Let_def new_worksheet_def)

lemma tables_write_excel_sheet:
  "tables (write_excel_sheet env rows cats name) = tables (add_mods_table rows new_worksheet)"
proof -
  have "tables (write_excel_sheet env rows cats name) =
    tables (add_mods_table rows (fold write_data_row (enumerate 2 rows)
      (fold (\<lambda>(col_idx, header) w. ws_cell w 1 col_idx (PStr header)) (enumerate 1 HEADERS)
        (new_worksheet\<lparr>title := name, freeze_panes := Some ''A2''\<rparr>))))"
    by (simp only: write_excel_sheet_def Let_def tables_write_categories tables_fold_set_width)
  also have "\<dots> = tables (add_mods_table rows new_worksheet)"
    unfolding tables_add_mods_table [of rows "fold _ _ _"] tables_fold_write_data_row tables_fold_ws_cell_row
    by (simp add: new_worksheet_def add_mods_table_def)
  finally show ?thesis .
qed



section \<open>C1: one row per mod, in order\<close>



lemma updated_value_str:
  "updated_value env (PStr s) =
     (if s = [] then Inr (PStr [])
      else case fromisoformat env (normalized s) of
             Inl e \<Rightarrow> (if e = ValueError then Inr (PStr s) else Inl e)
           | Inr p \<Rightarrow>
               (if tzinfo p \<noteq> None
                then (case astimezone env p of
                        Inl e \<Rightarrow> (if e = ValueError then Inr (PStr s) else Inl e)
                      | Inr q \<Rightarrow> Inr (PDatetime (q\<lparr>tzinfo := None\<rparr>)))
                else Inr (PDatetime p)))"
  by (simp add: updated_value_def iso_to_datetime_def iso_try_block_def py_or_def
      split: sum.splits)

lemma updated_value_falsy: "\<not> truthy u \<Longrightarrow> updated_value env u = Inr (PStr '''')"
  by (simp add: updated_value_def iso_to_datetime_def py_or_def)

lemma updated_value_not_str:
  "truthy u \<Longrightarrow> \<not> is_str u \<Longrightarrow> updated_value env u = Inl AttributeError"
  by (cases u) (simp_all add: updated_value_def iso_to_datetime_def iso_try_block_def is_str_def)


lemma build_row_updated:
  assumes "build_row env cats m = Inr (r, cats')"
    and "dict_get m ''modrinthProject'' = Inr p" and "truthy p"
    and "dict_get p ''updated'' = Inr u"
  shows "updated_value env u = Inr (row_get r ''Updated At'' PNone)"
  using assms unfolding build_row_def
  by (auto simp: then_do_Inr_iff row_get_def)
section \<open>C2: the Updated-At value of a string\<close>




lemma iso_to_datetime_not_ValueError: "iso_to_datetime env u \<noteq> Inl ValueError"
  by (simp add: iso_to_datetime_def split: sum.splits)

lemma iso_to_datetime_str:
  "iso_to_datetime env (PStr s) =
     (if s = [] then Inr None
      else case fromisoformat env (normalized s) of
             Inl e \<Rightarrow> (if e = ValueError then Inr None else Inl e)
           | Inr p \<Rightarrow>
               (if tzinfo p \<noteq> None
                then (case astimezone env p of
                        Inl e \<Rightarrow> (if e = ValueError then Inr None else Inl e)
                      | Inr q \<Rightarrow> Inr (Some (q\<lparr>tzinfo := None\<rparr>)))
                else Inr (Some p)))"
  by (simp add: iso_to_datetime_def iso_try_block_def split: sum.splits)

lemma iso_to_datetime_not_str:
  "truthy u \<Longrightarrow> \<not> is_str u \<Longrightarrow> iso_to_datetime env u = Inl AttributeError"
  by (cases u) (simp_all add: iso_to_datetime_def iso_try_block_def is_str_def)

lemma build_rows_loop_append:
  "build_rows_loop env rows cats (pre @ rest) =
     (case build_rows_loop env rows cats pre of
        Inl e \<Rightarrow> Inl e
      | Inr (rows', cats') \<Rightarrow> build_rows_loop env rows' cats' rest)"
  by (induction pre arbitrary: rows cats) (simp_all split: sum.splits prod.splits)

lemma build_rows_abort:
  assumes "build_rows env pre d = Inr (rows, cats)" and "build_row env cats m = Inl e"
  shows "build_rows env (pre @ m # post) d = Inl e"
  using assms by (simp add: build_rows_def build_rows_loop_append)

section \<open>C3: only a rejected timestamp string is recovered\<close>

text \<open>
  C3, as amended. For an \<^verbatim>\<open>updated\<close> value that is falsy (absent, null, empty) the
  Updated-At value is the empty string. For a string that the parser rejects with
  \<^verbatim>\<open>ValueError\<close>, \<^verbatim>\<open>iso_to_datetime\<close> returns \<^verbatim>\<open>None\<close>, the value falls back to the raw
  string and a well-formed entry still yields its row. \<^verbatim>\<open>ValueError\<close> never leaves
  \<^verbatim>\<open>iso_to_datetime\<close>, and it is the only error caught: another error of the parser
  or of the conversion propagates, a truthy value that is not a string raises
  \<^verbatim>\<open>AttributeError\<close>, and an error in the body of the loop ends \<^verbatim>\<open>build_rows\<close> with
  that error.
\<close>

theorem malformed_timestamp_recovered:
  "(\<not> truthy u \<longrightarrow> updated_value env u = Inr (PStr ''''))
   \<and> (fromisoformat env (normalized s) = Inl ValueError \<longrightarrow>
        iso_to_datetime env (PStr s) = Inr None \<and> updated_value env (PStr s) = Inr (PStr s))
   \<and> (\<forall>m p cats. wf_mod env m \<and> dict_get m ''modrinthProject'' = Inr p \<and> truthy p \<and>
          dict_get p ''updated'' = Inr (PStr s) \<and>
          fromisoformat env (normalized s) = Inl ValueError \<longrightarrow>
        (\<exists>r cats'. build_row env cats m = Inr (r, cats') \<and>
           row_get r ''Updated At'' PNone = PStr s))
   \<and> iso_to_datetime env u \<noteq> Inl ValueError
   \<and> (\<forall>e. s \<noteq> [] \<and> e \<noteq> ValueError \<and> fromisoformat env (normalized s) = Inl e \<longrightarrow>
        iso_to_datetime env (PStr s) = Inl e)
   \<and> (truthy u \<and> \<not> is_str u \<longrightarrow> iso_to_datetime env u = Inl AttributeError)
   \<and> (\<forall>pre rows cats m e post d. build_rows env pre d = Inr (rows, cats) \<and>
          build_row env cats m = Inl e \<longrightarrow>
        build_rows env (pre @ m # post) d = Inl e)
   \<and> (\<forall>p e. s \<noteq> [] \<and> e \<noteq> ValueError \<and> fromisoformat env (normalized s) = Inr p \<and>
          tzinfo p \<noteq> None \<and> astimezone env p = Inl e \<longrightarrow>
        iso_to_datetime env (PStr s) = Inl e)"
proof -
  have rejected: "iso_to_datetime env (PStr s) = Inr None \<and> updated_value env (PStr s) = Inr (PStr s)"
    if "fromisoformat env (normalized s) = Inl ValueError"
    using that by (simp add: iso_to_datetime_str updated_value_str)
  have row: "\<exists>r cats'. build_row env cats m = Inr (r, cats') \<and> row_get r ''Updated At'' PNone = PStr s"
    if wf: "wf_mod env m" and p: "dict_get m ''modrinthProject'' = Inr p" "truthy p"
      and u: "dict_get p ''updated'' = Inr (PStr s)"
      and bad: "fromisoformat env (normalized s) = Inl ValueError" for m p cats
  proof -
    from build_row_wf [OF wf, of cats] obtain r where
      r: "build_row env cats m = Inr (r, fold set_add (spec_tags m) cats)" by blast
    from build_row_updated [OF r p u] rejected [OF bad]
    have "row_get r ''Updated At'' PNone = PStr s" by simp
    with r show ?thesis by blast
  qed
  have other: "iso_to_datetime env (PStr s) = Inl e"
    if "s \<noteq> []" "e \<noteq> ValueError" "fromisoformat env (normalized s) = Inl e" for e
    using that by (simp add: iso_to_datetime_str)
  have convert: "iso_to_datetime env (PStr s) = Inl e"
    if "s \<noteq> [] \<and> e \<noteq> ValueError \<and> fromisoformat env (normalized s) = Inr p \<and>
      tzinfo p \<noteq> None \<and> astimezone env p = Inl e" for p e
    using that by (auto simp: iso_to_datetime_str)
  have abort: "build_rows env (pre @ m # post) d = Inl e"
    if "build_rows env pre d = Inr (rows, cats) \<and> build_row env cats m = Inl e"
    for pre rows cats m e post d
    using that by (intro build_rows_abort [of env pre d rows cats]) simp_all
  have falsy: "\<not> truthy u \<longrightarrow> updated_value env u = Inr (PStr '''')"
    by (simp add: updated_value_falsy)
  have not_str: "truthy u \<and> \<not> is_str u \<longrightarrow> iso_to_datetime env u = Inl AttributeError"
    by (simp add: iso_to_datetime_not_str)
  from rejected have rejected': "fromisoformat env (normalized s) = Inl ValueError \<longrightarrow>
        iso_to_datetime env (PStr s) = Inr None \<and> updated_value env (PStr s) = Inr (PStr s)"
    by (rule impI)
  from row have row': "\<forall>m p cats. wf_mod env m \<and> dict_get m ''modrinthProject'' = Inr p \<and> truthy p \<and>
          dict_get p ''updated'' = Inr (PStr s) \<and>
          fromisoformat env (normalized s) = Inl ValueError \<longrightarrow>
        (\<exists>r cats'. build_row env cats m = Inr (r, cats') \<and>
           row_get r ''Updated At'' PNone = PStr s)"
    by blast
  from other have other': "\<forall>e. s \<noteq> [] \<and> e \<noteq> ValueError \<and> fromisoformat env (normalized s) = Inl e \<longrightarrow>
        iso_to_datetime env (PStr s) = Inl e"
    by blast
  from abort have abort': "\<forall>pre rows cats m e post d. build_rows env pre d = Inr (rows, cats) \<and>
          build_row env cats m = Inl e \<longrightarrow>
        build_rows env (pre @ m # post) d = Inl e"
    by blast
  from convert have convert': "\<forall>p e. s \<noteq> [] \<and> e \<noteq> ValueError \<and>
          fromisoformat env (normalized s) = Inr p \<and>
          tzinfo p \<noteq> None \<and> astimezone env p = Inl e \<longrightarrow>
        iso_to_datetime env (PStr s) = Inl e"
    by blast
  from falsy rejected' row' iso_to_datetime_not_ValueError [of env u] other' not_str abort' convert'
  show ?thesis
    by (intro conjI)
qed

lemma example_undated_facts:
  "wf_mod example_host example_undated"
  "dict_get example_undated ''modrinthProject'' =
     Inr (PDict [(''updated'', PStr ''not-a-date''),
            (''categories'', PList [PStr ''adventure'', PStr ''magic''])])"
  "dict_get (PDict [(''updated'', PStr ''not-a-date''),
       (''categories'', PList [PStr ''adventure'', PStr ''magic''])]) ''updated'' =
     Inr (PStr ''not-a-date'')"
  "fromisoformat example_host (normalized ''not-a-date'') = Inl ValueError"
  "build_rows example_host [example_plain] '''' =
     Inr ([[(''Mod Name'', PStr ''Local''),
            (''Description'', PStr ''No Modrinth source available (untrusted source)''),
            (''Detail'', PStr []), (''Category'', PStr []),
            (''Links'', PStr ''No Modrinth''), (''Links_url'', PNone),
            (''File Name'', PStr ''local.jar''), (''Updated At'', PStr [])]], [])"
  "build_row example_host [] example_numeric = Inl AttributeError"
  by code_simp+

theorem malformed_timestamp_recovered_witness:
  "updated_value example_host PNone = Inr (PStr '''')
   \<and> updated_value example_host (PStr ''not-a-date'') = Inr (PStr ''not-a-date'')
   \<and> (\<exists>r cats'. build_row example_host [] example_undated = Inr (r, cats') \<and>
         row_get r ''Updated At'' PNone = PStr ''not-a-date'')
   \<and> iso_to_datetime example_host (PInt 1709287200) = Inl AttributeError
   \<and> build_rows example_host ([example_plain] @ example_numeric # [example_enriched]) '''' =
       Inl AttributeError"
proof -
  note t = malformed_timestamp_recovered [of PNone example_host "''not-a-date''"]
  note n = malformed_timestamp_recovered [of "PInt 1709287200" example_host "''not-a-date''"]
  have 1: "updated_value example_host PNone = Inr (PStr '''')"
    using t by simp
  have 2: "updated_value example_host (PStr ''not-a-date'') = Inr (PStr ''not-a-date'')"
    using t example_undated_facts(4) by simp
  have 3: "\<exists>r cats'. build_row example_host [] example_undated = Inr (r, cats') \<and>
      row_get r ''Updated At'' PNone = PStr ''not-a-date''"
    by (rule t [THEN conjunct2, THEN conjunct2, THEN conjunct1, rule_format,
          of example_undated "PDict [(''updated'', PStr ''not-a-date''),
            (''categories'', PList [PStr ''adventure'', PStr ''magic''])]" "[]"])
      (simp add: example_undated_facts)
  have 4: "iso_to_datetime example_host (PInt 1709287200) = Inl AttributeError"
    using n by (simp add: is_str_def)
  have 5: "build_rows example_host ([example_plain] @ example_numeric # [example_enriched]) '''' =
      Inl AttributeError"
    by (rule t [THEN conjunct2, THEN conjunct2, THEN conjunct2, THEN conjunct2, THEN conjunct2,
          THEN conjunct2, THEN conjunct1, rule_format,
          of "[example_plain]" "''''" _ "[]" example_numeric])
      (simp add: example_undated_facts)
  from 1 2 3 4 5 show ?thesis by (intro conjI)
qed

text \<open>
  C3 as stated fails for a value that is not a string: with a numeric \<^verbatim>\<open>updated\<close> the
  call \<^verbatim>\<open>value.endswith\<close> raises \<^verbatim>\<open>AttributeError\<close>, which the handler does not catch, so
  \<^verbatim>\<open>build_rows\<close> and the whole command end with it and nothing is saved.
\<close>

theorem numeric_timestamp_aborts:
  "build_rows example_host [example_plain, example_numeric] '''' = Inl AttributeError
   \<and> fst (main example_host (example_world (example_document [example_plain, example_numeric]))
        ''/games/pack/instance.json'') = Inl AttributeError
   \<and> saved (snd (main example_host (example_world (example_document [example_plain, example_numeric]))
        ''/games/pack/instance.json'')) = []"
  by code_simp

lemma build_row_no_project:
  assumes "dict_get (PDict kvs) ''modrinthProject'' = Inr p" and "\<not> truthy p"
  shows "build_row env cats (PDict kvs) =
     Inr ([(''Mod Name'',
             py_or (case map_of kvs ''name'' of None \<Rightarrow> PNone | Some v \<Rightarrow> v)
               (py_or (case map_of kvs ''file'' of None \<Rightarrow> PNone | Some v \<Rightarrow> v) (PStr ''''))),
           (''Description'', PStr ''No Modrinth source available (untrusted source)''),
           (''Detail'', PStr ''''),
           (''Category'', PStr ''''),
           (''Links'', PStr ''No Modrinth''),
           (''Links_url'', PNone),
           (''File Name'', py_or (case map_of kvs ''file'' of None \<Rightarrow> PNone | Some v \<Rightarrow> v) (PStr '''')),
           (''Updated At'', PStr '''')],
          cats)"
  using assms
  by (simp add: build_row_def updated_value_falsy mod_display_name_def dict_get_PDict
      or_else_def py_or_def)

lemma map_of_filter_key:
  "map_of (filter (\<lambda>kv. fst kv \<noteq> k) kvs) k' = (if k' = k then None else map_of kvs k')"
  by (induction kvs) auto


section \<open>C4: an entry without enrichment\<close>



section \<open>C10: a falsy project is no project\<close>

text \<open>
  C10. When the \<^verbatim>\<open>modrinthProject\<close> of a Mod Entry is present and falsy (an empty
  object, null, an empty string or list, zero, false), the loop body gives what it
  gives for the same entry without the key: the Category Set is unchanged and the
  row has the fallback description, the link label \<^verbatim>\<open>No Modrinth\<close>, no link URL, an
  empty detail, an empty category string and an empty Updated-At value.
\<close>

theorem falsy_project_like_absent:
  assumes "map_of kvs ''modrinthProject'' = Some p" and "\<not> truthy p"
  shows "build_row env cats (PDict kvs) =
       build_row env cats (PDict (filter (\<lambda>kv. fst kv \<noteq> ''modrinthProject'') kvs))
     \<and> (\<exists>r. build_row env cats (PDict kvs) = Inr (r, cats)
        \<and> map_of r ''Description'' = Some (PStr ''No Modrinth source available (untrusted source)'')
        \<and> map_of r ''Links'' = Some (PStr ''No Modrinth'')
        \<and> map_of r ''Links_url'' = Some PNone
        \<and> map_of r ''Detail'' = Some (PStr '''')
        \<and> map_of r ''Category'' = Some (PStr '''')
        \<and> map_of r ''Updated At'' = Some (PStr ''''))"
proof -
  let ?kvs = "filter (\<lambda>kv. fst kv \<noteq> ''modrinthProject'') kvs"
  have with_key: "dict_get (PDict kvs) ''modrinthProject'' = Inr p"
    using assms(1) by (simp add: dict_get_PDict)
  have without_key: "dict_get (PDict ?kvs) ''modrinthProject'' = Inr PNone"
    by (simp add: dict_get_PDict map_of_filter_key)
  have same: "build_row env cats (PDict kvs) = build_row env cats (PDict ?kvs)"
    unfolding build_row_no_project [OF with_key assms(2)]
      build_row_no_project [OF without_key truthy.simps(1) [THEN iffD1, THEN notI], simplified]
    by (simp add: map_of_filter_key)
  have fields: "\<exists>r. build_row env cats (PDict kvs) = Inr (r, cats)
        \<and> map_of r ''Description'' = Some (PStr ''No Modrinth source available (untrusted source)'')
        \<and> map_of r ''Links'' = Some (PStr ''No Modrinth'')
        \<and> map_of r ''Links_url'' = Some PNone
        \<and> map_of r ''Detail'' = Some (PStr '''')
        \<and> map_of r ''Category'' = Some (PStr '''')
        \<and> map_of r ''Updated At'' = Some (PStr '''')"
    by (simp add: build_row_no_project [OF with_key assms(2)])
  from same fields show ?thesis by (rule conjI)
qed

theorem falsy_project_like_absent_witness:
  "build_row example_host [] (PDict [(''name'', PStr ''Local''), (''modrinthProject'', PDict [])]) =
     build_row example_host [] (PDict [(''name'', PStr ''Local'')])
   \<and> (\<exists>r. build_row example_host []
           (PDict [(''name'', PStr ''Local''), (''modrinthProject'', PDict [])]) = Inr (r, [])
        \<and> map_of r ''Description'' = Some (PStr ''No Modrinth source available (untrusted source)'')
        \<and> map_of r ''Updated At'' = Some (PStr ''''))"
proof -
  have key: "map_of [(''name'', PStr ''Local''), (''modrinthProject'', PDict [])] ''modrinthProject'' =
      Some (PDict [])"
    by simp
  have falsy: "\<not> truthy (PDict [])"
    by simp
  note t = falsy_project_like_absent [OF key falsy, of example_host "[]"]
  from t have same: "build_row example_host [] (PDict [(''name'', PStr ''Local''), (''modrinthProject'', PDict [])]) =
     build_row example_host [] (PDict [(''name'', PStr ''Local'')])"
    by simp
  from t obtain r where
    "build_row example_host [] (PDict [(''name'', PStr ''Local''), (''modrinthProject'', PDict [])]) = Inr (r, [])"
    "map_of r ''Description'' = Some (PStr ''No Modrinth source available (untrusted source)'')"
    "map_of r ''Updated At'' = Some (PStr '''')"
    by blast
  with same show ?thesis by blast
qed



lemma fold_set_add_append: "fold set_add (xs @ ys) c = fold set_add ys (fold set_add xs c)"
  by simp

lemma set_sorted_categories: "set (sorted_categories env cats) = set cats"
  by (simp add: sorted_categories_def set_iter_def)

lemma distinct_sorted_categories: "distinct (sorted_categories env cats) = distinct cats"
  by (simp add: sorted_categories_def set_iter_def)

lemma length_sorted_categories: "length (sorted_categories env cats) = length cats"
  by (simp add: sorted_categories_def set_iter_def)

lemma mset_sorted_categories: "mset (sorted_categories env cats) = mset cats"
  by (simp add: sorted_categories_def set_iter_def)

lemma sorted_sorted_categories: "sorted (map (str_lower env) (sorted_categories env cats))"
  by (simp add: sorted_categories_def)

section \<open>C5: category tags\<close>




section \<open>C6: the category side list\<close>




section \<open>C7: no rows\<close>

text \<open>
  C7. With an empty sequence of rows the sheet has no table, its first row holds
  the seven headers, no other cell exists outside column 11, and the side list is
  written as for any other input: \<^verbatim>\<open>Categorias\<close> in row 1 of column 11 and the sorted
  categories below it, which is nothing when the set is empty. (With at least one
  row there is exactly one table.)
\<close>

theorem empty_rows_sheet:
  "tables (write_excel_sheet env [] cats name) = []
   \<and> (\<forall>j<length HEADERS.
        map_option cell_value (cells (write_excel_sheet env [] cats name) (1, 1 + j)) =
          Some (PStr (HEADERS ! j)))
   \<and> (\<forall>r c. 2 \<le> r \<and> c \<noteq> CATEGORIES_COL_INDEX \<longrightarrow>
        cells (write_excel_sheet env [] cats name) (r, c) = None)
   \<and> map_option cell_value (cells (write_excel_sheet env [] cats name) (1, CATEGORIES_COL_INDEX)) =
        Some (PStr ''Categorias'')
   \<and> (\<forall>i<length cats.
        map_option cell_value (cells (write_excel_sheet env [] cats name) (2 + i, CATEGORIES_COL_INDEX)) =
          Some (PStr (sorted_categories env cats ! i)))
   \<and> (cats = [] \<longrightarrow> (\<forall>r c. 2 \<le> r \<longrightarrow> cells (write_excel_sheet env [] cats name) (r, c) = None))
   \<and> (rows \<noteq> [] \<longrightarrow> length (tables (write_excel_sheet env rows cats name)) = 1)"
proof -
  have no_table: "tables (write_excel_sheet env [] cats name) = []"
    by (simp add: tables_write_excel_sheet add_mods_table_def new_worksheet_def)
  have one_table: "length (tables (write_excel_sheet env rows cats name)) = 1" if "rows \<noteq> []"
    using that by (simp add: tables_write_excel_sheet add_mods_table_def new_worksheet_def Let_def)
  have headers: "map_option cell_value (cells (write_excel_sheet env [] cats name) (1, 1 + j)) =
      Some (PStr (HEADERS ! j))" if "j < length HEADERS" for j
    using that by (simp add: cells_write_excel_sheet CATEGORIES_COL_INDEX_def length_HEADERS)
  have no_data: "cells (write_excel_sheet env [] cats name) (r, c) = None"
    if "2 \<le> r \<and> c \<noteq> CATEGORIES_COL_INDEX" for r c
    using that by (simp add: cells_write_excel_sheet)
  have side: "map_option cell_value (cells (write_excel_sheet env [] cats name) (1, CATEGORIES_COL_INDEX)) =
      Some (PStr ''Categorias'')"
    by (simp add: cells_write_excel_sheet)
  have below: "map_option cell_value (cells (write_excel_sheet env [] cats name) (2 + i, CATEGORIES_COL_INDEX)) =
      Some (PStr (sorted_categories env cats ! i))" if "i < length cats" for i
    using that by (simp add: cells_write_excel_sheet length_sorted_categories)
  have blank: "cells (write_excel_sheet env [] cats name) (r, c) = None" if "cats = []" "2 \<le> r" for r c
    using that by (simp add: cells_write_excel_sheet length_sorted_categories)
  from headers have headers': "\<forall>j<length HEADERS.
        map_option cell_value (cells (write_excel_sheet env [] cats name) (1, 1 + j)) =
          Some (PStr (HEADERS ! j))"
    by (intro allI impI)
  from no_data have no_data': "\<forall>r c. 2 \<le> r \<and> c \<noteq> CATEGORIES_COL_INDEX \<longrightarrow>
        cells (write_excel_sheet env [] cats name) (r, c) = None"
    by (intro allI impI)
  from below have below': "\<forall>i<length cats.
        map_option cell_value (cells (write_excel_sheet env [] cats name) (2 + i, CATEGORIES_COL_INDEX)) =
          Some (PStr (sorted_categories env cats ! i))"
    by (intro allI impI)
  have blank': "cats = [] \<longrightarrow>
      (\<forall>r c. 2 \<le> r \<longrightarrow> cells (write_excel_sheet env [] cats name) (r, c) = None)"
  proof (intro impI allI)
    fix r c :: nat
    assume "cats = []" and "2 \<le> r"
    then show "cells (write_excel_sheet env [] cats name) (r, c) = None"
      by (rule blank)
  qed
  from one_table have one_table': "rows \<noteq> [] \<longrightarrow>
      length (tables (write_excel_sheet env rows cats name)) = 1"
    by (intro impI)
  from no_table headers' no_data' side below' blank' one_table' show ?thesis
    by (intro conjI)
qed

theorem empty_rows_sheet_witness:
  "tables (write_excel_sheet example_host [] [] ''Mods'') = []
   \<and> map_option cell_value (cells (write_excel_sheet example_host [] [] ''Mods'') (1, 1)) =
        Some (PStr ''Mod Name'')
   \<and> map_option cell_value (cells (write_excel_sheet example_host [] [] ''Mods'') (1, 7)) =
        Some (PStr ''Updated At'')
   \<and> map_option cell_value (cells (write_excel_sheet example_host [] [] ''Mods'') (1, 11)) =
        Some (PStr ''Categorias'')
   \<and> cells (write_excel_sheet example_host [] [] ''Mods'') (2, 1) = None
   \<and> cells (write_excel_sheet example_host [] [] ''Mods'') (2, 11) = None
   \<and> length (tables (write_excel_sheet example_host [[(''Mod Name'', PStr ''Local'')]] [] ''Mods'')) = 1"
proof -
  note t = empty_rows_sheet [of example_host "[]" "''Mods''" "[[(''Mod Name'', PStr ''Local'')]]",
      unfolded CATEGORIES_COL_INDEX_def]
  from t have 1: "tables (write_excel_sheet example_host [] [] ''Mods'') = []"
    by (rule conjunct1)
  from t have h: "\<forall>j<length HEADERS.
        map_option cell_value (cells (write_excel_sheet example_host [] [] ''Mods'') (1, 1 + j)) =
          Some (PStr (HEADERS ! j))"
    by (elim conjE)
  from h [rule_format, of 0] have 2: "map_option cell_value
      (cells (write_excel_sheet example_host [] [] ''Mods'') (1, 1)) = Some (PStr ''Mod Name'')"
    by (simp add: HEADERS_def)
  from h [rule_format, of 6] have 3: "map_option cell_value
      (cells (write_excel_sheet example_host [] [] ''Mods'') (1, 7)) = Some (PStr ''Updated At'')"
    by (simp add: HEADERS_def)
  from t have 4: "map_option cell_value (cells (write_excel_sheet example_host [] [] ''Mods'') (1, 11)) =
        Some (PStr ''Categorias'')"
    by (elim conjE)
  from t have e: "\<forall>r c. 2 \<le> r \<longrightarrow> cells (write_excel_sheet example_host [] [] ''Mods'') (r, c) = None"
    by simp
  from e [rule_format, of 2 1] have 5: "cells (write_excel_sheet example_host [] [] ''Mods'') (2, 1) = None"
    by simp
  from e [rule_format, of 2 11] have 6: "cells (write_excel_sheet example_host [] [] ''Mods'') (2, 11) = None"
    by simp
  from t have 7: "length (tables (write_excel_sheet example_host [[(''Mod Name'', PStr ''Local'')]] [] ''Mods'')) = 1"
    by simp
  from 1 2 3 4 5 6 7 show ?thesis by (intro conjI)
qed


lemma main_success:
  assumes "isfile w (abspath env a)" and "file_json w (abspath env a) = Inr inst"
    and "prepare env (abspath env a) inst = Inr (out, rows, cats)"
    and "save_error w out = None"
  shows "main env w a =
    (Inr 0, w\<lparr>opened := opened w @ [abspath env a],
              saved := saved w @ [(out, write_excel_sheet env rows cats ''Mods'')],
              console := console w @ [''Excel report generated: '' @ out]\<rparr>)"
  using assms by (simp add: main_def Let_def load_instance_def write_excel_def)



section \<open>C8: the exit status\<close>



lemma example_world_facts:
  "abspath example_host p = p"
  "isfile (example_world doc) p = (p = ''/games/pack/instance.json'')"
  "file_json (example_world doc) ''/games/pack/instance.json'' = Inr doc"
  "save_error (example_world doc) p = None"
  "saved (example_world doc) = []"
  "console (example_world doc) = []"
  "opened (example_world doc) = []"
  by (simp_all add: example_host_def example_world_def)


lemma updated_value_rehash:
  "updated_value (env\<lparr>str_hash := h\<rparr>) u = updated_value env u"
  by (simp add: updated_value_def iso_to_datetime_def iso_try_block_def
      cong: if_cong pyval.case_cong sum.case_cong)

lemma format_field_rehash:
  "format_field (env\<lparr>str_hash := h\<rparr>) v = format_field env v"
  by (cases v) (simp_all add: format_field_def)

lemma modrinth_link_rehash:
  "modrinth_link (env\<lparr>str_hash := h\<rparr>) p = modrinth_link env p"
  by (simp add: modrinth_link_def format_field_rehash cong: if_cong)

lemma build_row_rehash:
  "build_row (env\<lparr>str_hash := h\<rparr>) c m = build_row env c m"
  by (simp add: build_row_def updated_value_rehash modrinth_link_rehash cong: if_cong)

lemma build_rows_loop_rehash:
  "build_rows_loop (env\<lparr>str_hash := h\<rparr>) rows c mods = build_rows_loop env rows c mods"
  by (induction mods arbitrary: rows c) (simp_all add: build_row_rehash cong: sum.case_cong)

lemma build_rows_rehash:
  "build_rows (env\<lparr>str_hash := h\<rparr>) mods d = build_rows env mods d"
  by (simp add: build_rows_def build_rows_loop_rehash)

lemma prepare_rehash:
  "prepare (env\<lparr>str_hash := h\<rparr>) p inst = prepare env p inst"
  by (simp add: prepare_def build_rows_rehash format_field_rehash Let_def cong: if_cong)

lemma add_categories_distinct:
  "add_categories xs c = Inr c' \<Longrightarrow> distinct c \<Longrightarrow> distinct c'"
proof (induction xs arbitrary: c)
  case Nil
  then show ?case by simp
next
  case (Cons x xs)
  then show ?case
    by (cases x) (auto simp: set_add_def split: if_splits)
qed

lemma build_row_distinct:
  assumes "build_row env c m = Inr (r, c')" and "distinct c"
  shows "distinct c'"
  using assms unfolding build_row_def
  by (auto simp: then_do_Inr_iff split: if_splits dest: add_categories_distinct)

lemma build_rows_loop_distinct:
  "build_rows_loop env rows c mods = Inr (rows', c') \<Longrightarrow> distinct c \<Longrightarrow> distinct c'"
proof (induction mods arbitrary: rows c)
  case Nil
  then show ?case by simp
next
  case (Cons m mods)
  then show ?case
    by (auto split: sum.splits dest: build_row_distinct)
qed

lemma build_rows_distinct:
  "build_rows env mods d = Inr (rows, cats) \<Longrightarrow> distinct cats"
  using build_rows_loop_distinct [of env "[]" "[]" mods rows cats]
  by (simp add: build_rows_def)

lemma sorted_categories_unique:
  assumes "distinct cats" and "inj_on (str_lower env) (set cats)"
  shows "sorted_categories (env\<lparr>str_hash := h\<rparr>) cats = sorted_categories env cats"
proof (rule map_sorted_distinct_set_unique [where f = "str_lower env"])
  show "inj_on (str_lower env)
      (set (sorted_categories (env\<lparr>str_hash := h\<rparr>) cats) \<union> set (sorted_categories env cats))"
    using assms(2) by (simp add: set_sorted_categories)
  show "sorted (map (str_lower env) (sorted_categories (env\<lparr>str_hash := h\<rparr>) cats))"
    using sorted_sorted_categories [of "env\<lparr>str_hash := h\<rparr>" cats] by simp
  show "sorted (map (str_lower env) (sorted_categories env cats))"
    by (rule sorted_sorted_categories)
  show "distinct (map (str_lower env) (sorted_categories (env\<lparr>str_hash := h\<rparr>) cats))"
    using assms by (simp add: distinct_map distinct_sorted_categories set_sorted_categories)
  show "distinct (map (str_lower env) (sorted_categories env cats))"
    using assms by (simp add: distinct_map distinct_sorted_categories set_sorted_categories)
  show "set (sorted_categories (env\<lparr>str_hash := h\<rparr>) cats) = set (sorted_categories env cats)"
    by (simp add: set_sorted_categories)
qed

lemma write_excel_sheet_cong:
  assumes "sorted_categories env' cats = sorted_categories env cats"
  shows "write_excel_sheet env' rows cats name = write_excel_sheet env rows cats name"
  unfolding write_excel_sheet_def write_categories_def Let_def assms ..

lemma main_rehash:
  assumes "file_json w (abspath env a) = Inr inst"
    and "prepare env (abspath env a) inst = Inr (out, rows, cats)"
    and "write_excel_sheet (env\<lparr>str_hash := h\<rparr>) rows cats ''Mods'' =
      write_excel_sheet env rows cats ''Mods''"
  shows "main (env\<lparr>str_hash := h\<rparr>) w a = main env w a"
  using assms
  by (simp add: main_def Let_def load_instance_def write_excel_def prepare_rehash
      split: option.splits)

section \<open>C9: running twice\<close>

text \<open>
  C9, as amended. For a fixed input and host, the rows and the Category Set that
  \<^verbatim>\<open>build_rows\<close> returns do not depend on the string hash of the process; the set has
  no duplicates, every cell outside the side column is the same in every run, and
  the side list holds the same categories. When no two categories of the set have
  the same lowered text, the whole sheet is the same, and so are the result of
  \<^verbatim>\<open>main\<close> and what it leaves in the world.
\<close>

theorem rerun_same_cells:
  "build_rows (env\<lparr>str_hash := h\<rparr>) mods d = build_rows env mods d
   \<and> (\<forall>rows cats. build_rows env mods d = Inr (rows, cats) \<longrightarrow>
        distinct cats
        \<and> (\<forall>r c. c \<noteq> CATEGORIES_COL_INDEX \<longrightarrow>
             cells (write_excel_sheet (env\<lparr>str_hash := h\<rparr>) rows cats name) (r, c) =
             cells (write_excel_sheet env rows cats name) (r, c))
        \<and> mset (sorted_categories (env\<lparr>str_hash := h\<rparr>) cats) = mset (sorted_categories env cats)
        \<and> (inj_on (str_lower env) (set cats) \<longrightarrow>
             write_excel_sheet (env\<lparr>str_hash := h\<rparr>) rows cats name =
             write_excel_sheet env rows cats name))
   \<and> (\<forall>inst out rows cats. file_json w (abspath env a) = Inr inst \<and>
          prepare env (abspath env a) inst = Inr (out, rows, cats) \<and>
          inj_on (str_lower env) (set cats) \<longrightarrow>
        main (env\<lparr>str_hash := h\<rparr>) w a = main env w a)"
proof (intro conjI allI impI)
  show "build_rows (env\<lparr>str_hash := h\<rparr>) mods d = build_rows env mods d"
    by (rule build_rows_rehash)
next
  fix rows cats
  assume run: "build_rows env mods d = Inr (rows, cats)"
  then show once: "distinct cats"
    by (rule build_rows_distinct)
  show "mset (sorted_categories (env\<lparr>str_hash := h\<rparr>) cats) = mset (sorted_categories env cats)"
    by (simp add: mset_sorted_categories)
  {
    fix r c :: nat
    assume "c \<noteq> CATEGORIES_COL_INDEX"
    then show "cells (write_excel_sheet (env\<lparr>str_hash := h\<rparr>) rows cats name) (r, c) =
        cells (write_excel_sheet env rows cats name) (r, c)"
      by (simp add: cells_write_excel_sheet)
  }
  {
    assume "inj_on (str_lower env) (set cats)"
    with once have "sorted_categories (env\<lparr>str_hash := h\<rparr>) cats = sorted_categories env cats"
      by (rule sorted_categories_unique)
    then show "write_excel_sheet (env\<lparr>str_hash := h\<rparr>) rows cats name =
        write_excel_sheet env rows cats name"
      by (rule write_excel_sheet_cong)
  }
next
  fix inst out rows cats
  assume h: "file_json w (abspath env a) = Inr inst \<and>
    prepare env (abspath env a) inst = Inr (out, rows, cats) \<and>
    inj_on (str_lower env) (set cats)"
  then have "\<exists>ms d. build_rows env ms d = Inr (rows, cats)"
    by (auto simp: prepare_def then_do_Inr_iff Let_def)
  then have "distinct cats"
    using build_rows_distinct by blast
  with h have "sorted_categories (env\<lparr>str_hash := h\<rparr>) cats = sorted_categories env cats"
    by (intro sorted_categories_unique) simp_all
  then have "write_excel_sheet (env\<lparr>str_hash := h\<rparr>) rows cats ''Mods'' =
      write_excel_sheet env rows cats ''Mods''"
    by (rule write_excel_sheet_cong)
  with h show "main (env\<lparr>str_hash := h\<rparr>) w a = main env w a"
    by (intro main_rehash [where inst = inst and out = out]) simp_all
qed

lemma example_enriched_prepare:
  "prepare example_host ''/games/pack/instance.json'' (example_document [example_enriched]) =
     Inr (''/games/pack/Mods 1.2.xlsx'',
          [[(''Mod Name'', PStr ''Sodium''), (''Description'', PStr ''Fast rendering''),
            (''Detail'', PStr []), (''Category'', PStr ''Magic;magic''),
            (''Links'', PStr ''Modrinth''),
            (''Links_url'', PStr ''https://modrinth.com/mod/sodium''),
            (''File Name'', PStr ''sodium.jar''),
            (''Updated At'', PDatetime \<lparr>year = 2024, month = 3, day = 1, hour = 10,
               minute = 0, second = 0, microsecond = 0, tzinfo = None\<rparr>)]],
          [''Magic'', ''magic''])"
  by code_simp

lemma example_side_lists:
  "sorted_categories example_host [''Magic'', ''magic''] = [''Magic'', ''magic'']"
  "sorted_categories example_host_rehashed [''Magic'', ''magic''] = [''magic'', ''Magic'']"
  by code_simp+

lemma saved_sheet:
  assumes "isfile w (abspath env a)" and "file_json w (abspath env a) = Inr inst"
    and "prepare env (abspath env a) inst = Inr (out, rows, cats)"
    and "save_error w out = None" and "saved w = []"
  shows "snd (hd (saved (snd (main env w a)))) = write_excel_sheet env rows cats ''Mods''"
  by (simp add: main_success [OF assms(1-4)] assms(5))

text \<open>
  C9 as stated fails: the side list is \<^verbatim>\<open>sorted(categories, key=str.lower)\<close>, a stable
  sort of a set, so two categories that differ by letter case only come in the order
  in which the process iterates the set, and that order follows the string hash of
  the process. On the same document the two processes below write \<^verbatim>\<open>Magic\<close> and
  \<^verbatim>\<open>magic\<close> in different order under the \<^verbatim>\<open>Categorias\<close> header.
\<close>

theorem rerun_side_list_differs:
  "map_option cell_value
     (cells (snd (hd (saved (snd (main example_host
        (example_world (example_document [example_enriched])) ''/games/pack/instance.json'')))))
      (2, 11)) = Some (PStr ''Magic'')
   \<and> map_option cell_value
     (cells (snd (hd (saved (snd (main example_host_rehashed
        (example_world (example_document [example_enriched])) ''/games/pack/instance.json'')))))
      (2, 11)) = Some (PStr ''magic'')"
proof -
  let ?w = "example_world (example_document [example_enriched])"
  let ?rows = "[[(''Mod Name'', PStr ''Sodium''), (''Description'', PStr ''Fast rendering''),
            (''Detail'', PStr []), (''Category'', PStr ''Magic;magic''),
            (''Links'', PStr ''Modrinth''),
            (''Links_url'', PStr ''https://modrinth.com/mod/sodium''),
            (''File Name'', PStr ''sodium.jar''),
            (''Updated At'', PDatetime \<lparr>year = 2024, month = 3, day = 1, hour = 10,
               minute = 0, second = 0, microsecond = 0, tzinfo = None\<rparr>)]]"
  have paths: "abspath example_host_rehashed p = p" for p
    by (simp add: example_host_rehashed_def example_host_def)
  have prep2: "prepare example_host_rehashed ''/games/pack/instance.json''
      (example_document [example_enriched]) =
      Inr (''/games/pack/Mods 1.2.xlsx'', ?rows, [''Magic'', ''magic''])"
    unfolding example_host_rehashed_def prepare_rehash by (rule example_enriched_prepare)
  have first: "snd (hd (saved (snd (main example_host ?w ''/games/pack/instance.json'')))) =
      write_excel_sheet example_host ?rows [''Magic'', ''magic''] ''Mods''"
    by (rule saved_sheet [where inst = "example_document [example_enriched]"
          and out = "''/games/pack/Mods 1.2.xlsx''"])
      (simp_all add: example_world_facts example_enriched_prepare)
  have second: "snd (hd (saved (snd (main example_host_rehashed ?w ''/games/pack/instance.json'')))) =
      write_excel_sheet example_host_rehashed ?rows [''Magic'', ''magic''] ''Mods''"
    by (rule saved_sheet [where inst = "example_document [example_enriched]"
          and out = "''/games/pack/Mods 1.2.xlsx''"])
      (simp_all add: example_world_facts paths prep2)
  show ?thesis
    unfolding first second
    by (simp add: cells_write_excel_sheet CATEGORIES_COL_INDEX_def example_side_lists)
qed

lemma example_lowered:
  "str_lower example_host ''adventure'' = ''adventure''"
  "str_lower example_host ''magic'' = ''magic''"
  by code_simp+

lemma example_undated_rows:
  "build_rows example_host [example_undated] '''' =
     Inr ([[(''Mod Name'', PStr ''x.jar''), (''Description'', PStr []),
            (''Detail'', PStr []), (''Category'', PStr ''adventure;magic''),
            (''Links'', PStr []), (''Links_url'', PNone),
            (''File Name'', PStr ''x.jar''),
            (''Updated At'', PStr ''not-a-date'')]],
          [''adventure'', ''magic''])"
  by code_simp

theorem rerun_same_cells_witness:
  "build_rows example_host_rehashed [example_undated] '''' =
     build_rows example_host [example_undated] ''''
   \<and> (\<exists>rows. build_rows example_host [example_undated] '''' = Inr (rows, [''adventure'', ''magic''])
        \<and> inj_on (str_lower example_host) (set [''adventure'', ''magic''])
        \<and> write_excel_sheet example_host_rehashed rows [''adventure'', ''magic''] ''Mods'' =
            write_excel_sheet example_host rows [''adventure'', ''magic''] ''Mods'')"
proof -
  note t = rerun_same_cells [where env = example_host and h = other_hash
      and mods = "[example_undated]" and d = "''''" and name = "''Mods''",
      folded example_host_rehashed_def]
  have inj: "inj_on (str_lower example_host) (set [''adventure'', ''magic''])"
    by (simp add: example_lowered)
  from t have same: "build_rows example_host_rehashed [example_undated] '''' =
     build_rows example_host [example_undated] ''''"
    by (rule conjunct1)
  from t [THEN conjunct2, THEN conjunct1, rule_format, OF example_undated_rows] inj
  have sheet: "write_excel_sheet example_host_rehashed
      [[(''Mod Name'', PStr ''x.jar''), (''Description'', PStr []),
            (''Detail'', PStr []), (''Category'', PStr ''adventure;magic''),
            (''Links'', PStr []), (''Links_url'', PNone),
            (''File Name'', PStr ''x.jar''),
            (''Updated At'', PStr ''not-a-date'')]] [''adventure'', ''magic''] ''Mods'' =
      write_excel_sheet example_host
      [[(''Mod Name'', PStr ''x.jar''), (''Description'', PStr []),
            (''Detail'', PStr []), (''Category'', PStr ''adventure;magic''),
            (''Links'', PStr []), (''Links_url'', PNone),
            (''File Name'', PStr ''x.jar''),
            (''Updated At'', PStr ''not-a-date'')]] [''adventure'', ''magic''] ''Mods''"
    by blast
  from same example_undated_rows inj sheet show ?thesis
    by blast
qed

end
